theory Spec2Isabelle
  imports Main
begin

section \<open>The persisted schema\<close>

text \<open>
  The schema script declares the enum \<^verbatim>\<open>todo_status\<close> and the tables
  \<^verbatim>\<open>todos\<close> and \<^verbatim>\<open>subtodos\<close>. Timestamps are points on an integer time line.
  A row carries one field per column; a nullable column is an \<open>option\<close>. The columns
  \<^verbatim>\<open>id\<close>, \<^verbatim>\<open>title\<close>, \<^verbatim>\<open>description\<close> and \<^verbatim>\<open>status\<close> of \<^verbatim>\<open>todos\<close> carry
  the suffix \<open>_col\<close>, the columns of \<^verbatim>\<open>subtodos\<close> the prefix \<open>sub_\<close>, to keep them apart
  from the camel-case keys of the application objects.
\<close>

datatype todo_status = incomplete | complete

type_synonym timestamp = int

record todos_row =
  id_col :: int
  title_col :: string
  description_col :: string
  status_col :: todo_status
  due_at :: "timestamp option"
  created_at :: timestamp
  completed_at :: "timestamp option"
  edited_at :: "timestamp option"

record subtodos_row =
  sub_id :: int
  sub_title :: string
  sub_status :: todo_status
  sub_created_at :: timestamp
  sub_completed_at :: "timestamp option"
  sub_edited_at :: "timestamp option"
  todo_id :: "int option"

text \<open>
  The database behind the \<^verbatim>\<open>postgres.Sql\<close> handle: the two tables, each a list of rows,
  and the sequence that feeds \<^verbatim>\<open>todos.id\<close> (\<^verbatim>\<open>SERIAL\<close>).
\<close>

record Sql =
  todos :: "todos_row list"
  todos_id_seq :: int
  subtodos :: "subtodos_row list"

text \<open>
  What a method of the entity module raises: what the client raises before it sends the
  statement (\<open>UndefinedValue\<close>), what the store answers, and \<open>NoRow\<close>. A statement is
  rejected as a whole: a rejected statement leaves the tables as they were. The sequence is
  not a table: an id drawn for a row that is rejected is spent.
\<close>

datatype error =
    ConnectionError string
  | UndefinedValue
  | SyntaxError
  | UndefinedColumn string
  | DuplicateAssignment string
  | NotNullViolation string
  | StringTooLong string
  | UniqueViolation
  | ForeignKeyViolation
  | InvalidTextRepresentation
  | NoRow

text \<open>
  Every method of the entity module reserves a connection and sends one statement. The
  argument of type \<open>conn\<close> is what the store answers to that: \<open>None\<close> when it serves the
  statement, \<open>Some e\<close> when reserving or sending raises \<open>e\<close> whatever the statement is.
  The state below is the state of the database; the pool of connections of the client is
  no part of it.
\<close>

type_synonym conn = "error option"

section \<open>The entity module: models/Todo.ts\<close>

text \<open>
  What the keys \<^verbatim>\<open>title\<close> and \<^verbatim>\<open>description\<close> hold at run time. The controller copies
  them from the JSON body, where a key may be missing (the value read is
  \<^verbatim>\<open>undefined\<close>), \<^verbatim>\<open>null\<close> or a string. The client refuses to send \<^verbatim>\<open>undefined\<close>; it
  sends \<^verbatim>\<open>null\<close> as \<^verbatim>\<open>NULL\<close>.
\<close>

datatype jstext = Undefined | Null | Str string

text \<open>
  \<^verbatim>\<open>TodoProps\<close>. At run time an object of this interface may lack any of its keys (the
  controller builds one without \<^verbatim>\<open>userId\<close>, and \<^verbatim>\<open>Partial<TodoProps>\<close> is the type of
  an update). For \<^verbatim>\<open>title\<close> and \<^verbatim>\<open>description\<close>, \<open>Undefined\<close> is a key that is absent
  (in an update) or whose value is undefined (in the object \<^verbatim>\<open>createTodo\<close> builds, which
  always has the two keys). For the other keys \<open>None\<close> is a key that is absent. The key
  \<^verbatim>\<open>id\<close> is \<open>id_prop\<close>.
\<close>

record TodoProps =
  id_prop :: "int option"
  title :: jstext
  description :: jstext
  status :: "todo_status option"
  dueAt :: "timestamp option"
  createdAt :: "timestamp option"
  completedAt :: "timestamp option"
  editedAt :: "timestamp option"
  userId :: "int option"

definition emptyProps :: TodoProps where
  "emptyProps = \<lparr>id_prop = None, title = Undefined, description = Undefined, status = None,
     dueAt = None, createdAt = None, completedAt = None, editedAt = None, userId = None\<rparr>"

text \<open>
  An instance of the class \<^verbatim>\<open>Todo\<close>: its public \<^verbatim>\<open>props\<close>. Its private \<^verbatim>\<open>sql\<close> is the
  one handle of the process, passed to every method below as the database it stands for.
\<close>

record Todo =
  props :: TodoProps

text \<open>
  Modelled from the spec: \<^verbatim>\<open>convertToCase\<close>, \<^verbatim>\<open>snakeToCamel\<close> and \<^verbatim>\<open>camelToSnake\<close> of
  \<^verbatim>\<open>src/utils\<close>, which is not among the sources: "a pure, total, reversible mapping"
  between the camel-case keys of the application and the snake-case columns of the store.
  \<open>rowToProps\<close> is \<^verbatim>\<open>convertToCase(snakeToCamel, row)\<close> on a row of \<^verbatim>\<open>todos\<close>; the table
  has no column \<^verbatim>\<open>user_id\<close>, so the object has no \<^verbatim>\<open>userId\<close>.
\<close>

definition rowToProps :: "todos_row \<Rightarrow> TodoProps" where
  "rowToProps row = \<lparr>id_prop = Some (id_col row), title = Str (title_col row),
     description = Str (description_col row), status = Some (status_col row),
     dueAt = due_at row, createdAt = Some (created_at row),
     completedAt = completed_at row, editedAt = edited_at row, userId = None\<rparr>"

text \<open>
  \<^verbatim>\<open>Todo.create\<close>: \<^verbatim>\<open>INSERT INTO todos (the keys of props) RETURNING *\<close>. \<open>now\<close> is what
  \<^verbatim>\<open>createUTCDate()\<close> reads, used only when \<^verbatim>\<open>props.createdAt\<close> is nullish. The result
  is the database the call leaves and what it returns or raises.
  \<^item> When the connection fails, nothing is sent.
  \<^item> The client raises on an undefined \<^verbatim>\<open>title\<close> or \<^verbatim>\<open>description\<close> while it builds
    the statement: nothing is sent.
  \<^item> The store refuses a statement that names \<^verbatim>\<open>user_id\<close>, which is no column of
    \<^verbatim>\<open>todos\<close>, before it runs it.
  \<^item> Otherwise the statement runs. Without a key \<^verbatim>\<open>id\<close> the row draws its id from the
    sequence, and a sequence does not go back: the id is spent even when the row is
    rejected afterwards, for a title beyond \<^verbatim>\<open>VARCHAR(255)\<close>, for a null \<^verbatim>\<open>title\<close> or
    \<^verbatim>\<open>description\<close> (\<^verbatim>\<open>NOT NULL\<close>), or for an id that is taken (\<^verbatim>\<open>PRIMARY KEY\<close>).
    Without \<^verbatim>\<open>status\<close> the row has the default \<^verbatim>\<open>'incomplete'\<close>.
\<close>

definition Todo_create :: "Sql \<Rightarrow> conn \<Rightarrow> timestamp \<Rightarrow> TodoProps \<Rightarrow> Sql \<times> (error + Todo)" where
  "Todo_create sql c now props0 =
    (case c of Some e \<Rightarrow> (sql, Inl e) | None \<Rightarrow>
      let created = (case createdAt props0 of None \<Rightarrow> now | Some d \<Rightarrow> d) in
      if title props0 = Undefined \<or> description props0 = Undefined
        then (sql, Inl UndefinedValue)
      else if userId props0 \<noteq> None then (sql, Inl (UndefinedColumn ''user_id''))
      else
        let i = (case id_prop props0 of None \<Rightarrow> todos_id_seq sql | Some j \<Rightarrow> j);
            drawn = (case id_prop props0 of
                       None \<Rightarrow> sql\<lparr>todos_id_seq := todos_id_seq sql + 1\<rparr>
                     | Some j \<Rightarrow> sql)
        in case title props0 of
             Undefined \<Rightarrow> (sql, Inl UndefinedValue)
           | Null \<Rightarrow> (drawn, Inl (NotNullViolation ''title''))
           | Str ti \<Rightarrow>
               if length ti > 255 then (drawn, Inl (StringTooLong ''title''))
               else case description props0 of
                 Undefined \<Rightarrow> (sql, Inl UndefinedValue)
               | Null \<Rightarrow> (drawn, Inl (NotNullViolation ''description''))
               | Str de \<Rightarrow>
                   let row = \<lparr>id_col = i, title_col = ti, description_col = de,
                     status_col = (case status props0 of None \<Rightarrow> incomplete | Some s \<Rightarrow> s),
                     due_at = dueAt props0, created_at = created,
                     completed_at = completedAt props0, edited_at = editedAt props0\<rparr>
                   in if i \<in> set (map id_col (todos sql)) then (drawn, Inl UniqueViolation)
                      else (drawn\<lparr>todos := todos sql @ [row]\<rparr>,
                            Inr \<lparr>props = rowToProps row\<rparr>))"

text \<open>
  What \<^verbatim>\<open>req.getId()\<close> hands to the controller and the controller to \<^verbatim>\<open>Todo.read\<close>: a
  JavaScript number, which is \<open>NaN\<close> when the path segment is not numeric.
\<close>

datatype jsnumber = Num int | NaN

text \<open>
  \<^verbatim>\<open>Todo.read\<close>: \<^verbatim>\<open>SELECT * FROM todos WHERE id = ${id}\<close>, the first row or \<^verbatim>\<open>null\<close>.
  The store rejects \<open>NaN\<close> as an integer.
\<close>

definition Todo_read :: "Sql \<Rightarrow> conn \<Rightarrow> jsnumber \<Rightarrow> error + Todo option" where
  "Todo_read sql c n =
    (case c of Some e \<Rightarrow> Inl e | None \<Rightarrow>
      case n of NaN \<Rightarrow> Inl InvalidTextRepresentation | Num i \<Rightarrow>
        (case filter (\<lambda>r. id_col r = i) (todos sql) of
           [] \<Rightarrow> Inr None
         | row # _ \<Rightarrow> Inr (Some \<lparr>props = rowToProps row\<rparr>)))"

text \<open>
  \<^verbatim>\<open>Todo.readAll\<close>: \<^verbatim>\<open>SELECT * FROM todos\<close>, every row hydrated. The parameters
  \<^verbatim>\<open>userId\<close>, \<^verbatim>\<open>filters\<close>, \<^verbatim>\<open>sortBy\<close> and \<^verbatim>\<open>orderBy\<close> are declared and not read.
\<close>

definition Todo_readAll ::
  "Sql \<Rightarrow> conn \<Rightarrow> int option \<Rightarrow> TodoProps option \<Rightarrow> string option \<Rightarrow> string option
    \<Rightarrow> error + Todo list" where
  "Todo_readAll sql c user_id filters sortBy orderBy =
    (case c of Some e \<Rightarrow> Inl e | None \<Rightarrow>
      Inr (map (\<lambda>row. \<lparr>props = rowToProps row\<rparr>) (todos sql)))"

text \<open>
  The \<^verbatim>\<open>SET\<close> list of \<^verbatim>\<open>update\<close> applied to one row: each supplied key assigns its column,
  and \<^verbatim>\<open>edited_at\<close> is assigned the reading of \<^verbatim>\<open>createUTCDate()\<close>.
\<close>

definition assign :: "TodoProps \<Rightarrow> timestamp \<Rightarrow> todos_row \<Rightarrow> todos_row" where
  "assign u now r =
     \<lparr>id_col = (case id_prop u of None \<Rightarrow> id_col r | Some v \<Rightarrow> v),
      title_col = (case title u of Str v \<Rightarrow> v | _ \<Rightarrow> title_col r),
      description_col = (case description u of Str v \<Rightarrow> v | _ \<Rightarrow> description_col r),
      status_col = (case status u of None \<Rightarrow> status_col r | Some v \<Rightarrow> v),
      due_at = (case dueAt u of None \<Rightarrow> due_at r | Some v \<Rightarrow> Some v),
      created_at = (case createdAt u of None \<Rightarrow> created_at r | Some v \<Rightarrow> v),
      completed_at = (case completedAt u of None \<Rightarrow> completed_at r | Some v \<Rightarrow> Some v),
      edited_at = Some now\<rparr>"

text \<open>The keys an object supplies, as \<^verbatim>\<open>Object.keys\<close> counts them.\<close>

definition keys :: "TodoProps \<Rightarrow> nat" where
  "keys u = length (filter (\<lambda>present. present)
     [id_prop u \<noteq> None, title u \<noteq> Undefined, description u \<noteq> Undefined,
      status u \<noteq> None,
      dueAt u \<noteq> None, createdAt u \<noteq> None, completedAt u \<noteq> None, editedAt u \<noteq> None,
      userId u \<noteq> None])"

text \<open>
  \<^verbatim>\<open>{ ...this.props, ...convertToCase(snakeToCamel, row) }\<close>: the returned row has all
  eight columns, so its keys replace those of \<^verbatim>\<open>this.props\<close>; a \<^verbatim>\<open>userId\<close> stays.
\<close>

definition spread :: "TodoProps \<Rightarrow> todos_row \<Rightarrow> TodoProps" where
  "spread p row = (rowToProps row)\<lparr>userId := userId p\<rparr>"

text \<open>
  \<^verbatim>\<open>update\<close>:
  \<^verbatim>\<open>UPDATE todos SET (the keys of updateProps), edited_at = ${createUTCDate()}
      WHERE id = ${this.props.id} RETURNING *\<close>,
  then the first returned row is spread over \<^verbatim>\<open>this.props\<close>. The statement is the text
  the template gives: with no key in \<^verbatim>\<open>updateProps\<close> the list after \<^verbatim>\<open>SET\<close> begins with
  the comma, which the store rejects; with a key \<^verbatim>\<open>editedAt\<close> the column is assigned
  twice; a key \<^verbatim>\<open>userId\<close> names no column. An undefined \<^verbatim>\<open>this.props.id\<close> is rejected as
  a parameter. A new title must fit \<^verbatim>\<open>VARCHAR(255)\<close>; \<^verbatim>\<open>title\<close> and \<^verbatim>\<open>description\<close>
  are \<^verbatim>\<open>NOT NULL\<close>; a new \<^verbatim>\<open>id\<close> must be free and the old one unreferenced by
  \<^verbatim>\<open>subtodos\<close>. A rejected statement leaves the database as it was.
  When no row has the id, nothing is returned and there is no object to convert: the
  model reports \<open>NoRow\<close>; table and \<^verbatim>\<open>props\<close> are as before.
\<close>

definition update ::
  "Sql \<Rightarrow> conn \<Rightarrow> timestamp \<Rightarrow> Todo \<Rightarrow> TodoProps \<Rightarrow> error + (Sql \<times> Todo)" where
  "update sql c now t updateProps =
    (case c of Some e \<Rightarrow> Inl e | None \<Rightarrow>
      case id_prop (props t) of None \<Rightarrow> Inl UndefinedValue | Some i \<Rightarrow>
      if keys updateProps = 0 then Inl SyntaxError
      else if editedAt updateProps \<noteq> None then Inl (DuplicateAssignment ''edited_at'')
      else if userId updateProps \<noteq> None then Inl (UndefinedColumn ''user_id'')
      else case filter (\<lambda>r. id_col r = i) (todos sql) of
          [] \<Rightarrow> Inl NoRow
        | row # _ \<Rightarrow>
            let j = id_col (assign updateProps now row) in
            if (case title updateProps of Str v \<Rightarrow> length v > 255 | _ \<Rightarrow> False)
              then Inl (StringTooLong ''title'')
            else if title updateProps = Null then Inl (NotNullViolation ''title'')
            else if description updateProps = Null
              then Inl (NotNullViolation ''description'')
            else if j \<noteq> i \<and> j \<in> set (map id_col (todos sql)) then Inl UniqueViolation
            else if j \<noteq> i \<and> Some i \<in> set (map todo_id (subtodos sql))
              then Inl ForeignKeyViolation
            else Inr (sql\<lparr>todos := map (\<lambda>r. if id_col r = i then assign updateProps now r else r)
                                       (todos sql)\<rparr>,
                      t\<lparr>props := spread (props t) (assign updateProps now row)\<rparr>))"

text \<open>
  \<^verbatim>\<open>delete\<close>: \<^verbatim>\<open>DELETE FROM todos WHERE id = ${this.props.id}\<close>; the result is whether
  exactly one row went. \<^verbatim>\<open>subtodos.todo_id\<close> is declared
  \<^verbatim>\<open>REFERENCES todos(id) ON DELETE CASCADE\<close>: the rows of \<^verbatim>\<open>subtodos\<close> that reference a
  deleted row go with it.
\<close>

definition delete :: "Sql \<Rightarrow> conn \<Rightarrow> Todo \<Rightarrow> error + (Sql \<times> bool)" where
  "delete sql c t =
    (case c of Some e \<Rightarrow> Inl e | None \<Rightarrow>
      case id_prop (props t) of None \<Rightarrow> Inl UndefinedValue | Some i \<Rightarrow>
        let gone = filter (\<lambda>r. id_col r = i) (todos sql) in
        Inr (sql\<lparr>todos := filter (\<lambda>r. id_col r \<noteq> i) (todos sql),
                 subtodos := filter (\<lambda>s. case todo_id s of None \<Rightarrow> True
                                          | Some k \<Rightarrow> k \<notin> set (map id_col gone))
                                    (subtodos sql)\<rparr>,
             length gone = 1))"

text \<open>
  \<^verbatim>\<open>markComplete\<close>: \<^verbatim>\<open>this.update({status: "complete", completedAt: createUTCDate()})\<close>.
  \<open>nowC\<close> is the clock as \<^verbatim>\<open>markComplete\<close> reads it, \<open>nowE\<close> the later reading of
  \<^verbatim>\<open>update\<close>.
\<close>

definition markComplete ::
  "Sql \<Rightarrow> conn \<Rightarrow> timestamp \<Rightarrow> timestamp \<Rightarrow> Todo \<Rightarrow> error + (Sql \<times> Todo)" where
  "markComplete sql c nowC nowE t =
     update sql c nowE t (emptyProps\<lparr>status := Some complete, completedAt := Some nowC\<rparr>)"

section \<open>The controller: TodoController\<close>

text \<open>
  Modelled from the spec: the enum \<^verbatim>\<open>StatusCode\<close> of \<^verbatim>\<open>src/router/Response\<close>, which is
  not among the sources. The controller names its members \<^verbatim>\<open>OK\<close> and \<^verbatim>\<open>Created\<close>, the
  tests \<^verbatim>\<open>BadRequest\<close>, \<^verbatim>\<open>Unauthorized\<close>, \<^verbatim>\<open>Forbidden\<close> and \<^verbatim>\<open>NotFound\<close>; the numbers
  are those of the spec's table of the HTTP surface and of its error taxonomy.
\<close>

datatype StatusCode =
  OK | Created | BadRequest | Unauthorized | Forbidden | NotFound | InternalServerError

fun statusNumber :: "StatusCode \<Rightarrow> nat" where
  "statusNumber OK = 200"
| "statusNumber Created = 201"
| "statusNumber BadRequest = 400"
| "statusNumber Unauthorized = 401"
| "statusNumber Forbidden = 403"
| "statusNumber NotFound = 404"
| "statusNumber InternalServerError = 500"

text \<open>
  The argument of \<^verbatim>\<open>res.send\<close>. A redirect is \<^verbatim>\<open>/todos\<close>, \<^verbatim>\<open>/todos/${todo?.props.id}\<close>
  (the id of the Todo, if there is one) or \<^verbatim>\<open>/todos/${id}\<close> (the number \<^verbatim>\<open>getId\<close> gave).
  The payloads are the object literals of the handlers.
\<close>

datatype Redirect = ToTodos | ToTodo "int option" | ToTodoId jsnumber

datatype Payload =
    FormPayload string
  | EditPayload "TodoProps option" string
  | ListPayload string "(TodoProps \<times> bool) list"
  | ShowPayload "TodoProps option" "jstext option" bool
  | TodoPayload "TodoProps option"

record Response =
  statusCode :: StatusCode
  message :: string
  template :: "string option"
  payload :: Payload
  redirect :: "Redirect option"

text \<open>
  Modelled from the spec: the \<^verbatim>\<open>Request\<close> object of \<^verbatim>\<open>src/router/Request\<close>, which is not
  among the sources: "method, path, params, body, cookies". The handlers read \<^verbatim>\<open>getId()\<close>
  and \<^verbatim>\<open>body\<close>; a session, if any, is a cookie. The body is an object with the keys of a
  Todo (the tests send \<^verbatim>\<open>title\<close>, \<^verbatim>\<open>description\<close>, \<^verbatim>\<open>dueAt\<close> and \<^verbatim>\<open>userId\<close>).
\<close>

record Request =
  cookies :: "(string \<times> string) list"
  getId :: jsnumber
  body :: TodoProps

text \<open>
  What a handler acts on: the database behind \<^verbatim>\<open>this.sql\<close> and what \<^verbatim>\<open>console.error\<close>
  has printed, each line the text of the handler and the error it caught.
\<close>

record World =
  database :: Sql
  console :: "(string \<times> error) list"

text \<open>
  What one request meets: the answer of the store to the first and to the second statement
  the handler sends, and the first and second reading of \<^verbatim>\<open>createUTCDate()\<close>.
\<close>

record Env =
  conn1 :: conn
  conn2 :: conn
  now1 :: timestamp
  now2 :: timestamp

text \<open>\<^verbatim>\<open>console.error\<close> in a \<^verbatim>\<open>catch\<close> block: one more line, the database untouched.\<close>

definition console_error :: "string \<Rightarrow> error \<Rightarrow> World \<Rightarrow> World" where
  "console_error msg e w = w\<lparr>console := console w @ [(msg, e)]\<rparr>"

text \<open>\<^verbatim>\<open>if (req.body.title)\<close>: a string is truthy when it is there and not empty.\<close>

definition truthy :: "jstext \<Rightarrow> bool" where
  "truthy v = (case v of Str s \<Rightarrow> s \<noteq> [] | _ \<Rightarrow> False)"

definition getNewTodoForm :: "World \<Rightarrow> Env \<Rightarrow> Request \<Rightarrow> World \<times> Response" where
  "getNewTodoForm w env req =
     (w, \<lparr>statusCode = OK, message = ''New todo form'', template = Some ''NewFormView'',
          payload = FormPayload ''New Todo'', redirect = None\<rparr>)"

definition getEditTodoForm :: "World \<Rightarrow> Env \<Rightarrow> Request \<Rightarrow> World \<times> Response" where
  "getEditTodoForm w env req =
     (let (todo, w1) =
            (case Todo_read (database w) (conn1 env) (getId req) of
               Inl e \<Rightarrow> (None, console_error ''Error while getting todo list: '' e w)
             | Inr t \<Rightarrow> (t, w))
      in (w1, \<lparr>statusCode = OK, message = ''Edit todo form'', template = Some ''EditFormView'',
               payload = EditPayload (map_option props todo) ''Edit Todo'', redirect = None\<rparr>))"

text \<open>\<^verbatim>\<open>getTodoList\<close> calls \<^verbatim>\<open>Todo.readAll(this.sql)\<close>: the other arguments are undefined.\<close>

definition getTodoList :: "World \<Rightarrow> Env \<Rightarrow> Request \<Rightarrow> World \<times> Response" where
  "getTodoList w env req =
     (let (todos', w1) =
            (case Todo_readAll (database w) (conn1 env) None None None None of
               Inl e \<Rightarrow> ([], console_error ''Error while getting todo list: '' e w)
             | Inr ts \<Rightarrow> (ts, w));
          todoList = map (\<lambda>todo. (props todo, status (props todo) = Some complete)) todos'
      in (w1, \<lparr>statusCode = OK, message = ''Todo list retrieved'', template = Some ''ListView'',
               payload = ListPayload ''Todo List'' todoList, redirect = None\<rparr>))"

definition getTodo :: "World \<Rightarrow> Env \<Rightarrow> Request \<Rightarrow> World \<times> Response" where
  "getTodo w env req =
     (let (todo, w1) =
            (case Todo_read (database w) (conn1 env) (getId req) of
               Inl e \<Rightarrow> (None, console_error ''Error while getting todo list: '' e w)
             | Inr t \<Rightarrow> (t, w))
      in (w1, \<lparr>statusCode = OK, message = ''Todo retrieved'', template = Some ''ShowView'',
               payload = ShowPayload (map_option props todo)
                           (map_option (\<lambda>t. title (props t)) todo)
                           (Option.bind todo (\<lambda>t. status (props t)) = Some complete),
               redirect = None\<rparr>))"

text \<open>
  \<^verbatim>\<open>createTodo\<close> builds \<^verbatim>\<open>todoProps\<close> from \<^verbatim>\<open>req.body.title\<close>, \<^verbatim>\<open>req.body.description\<close>,
  \<^verbatim>\<open>"incomplete"\<close> and the clock. \<^verbatim>\<open>Todo.create\<close> would read the clock a second time, if
  \<^verbatim>\<open>createdAt\<close> were nullish.
\<close>

definition createTodoProps :: "Env \<Rightarrow> Request \<Rightarrow> TodoProps" where
  "createTodoProps env req =
     emptyProps\<lparr>title := title (body req),
                description := description (body req),
                status := Some incomplete,
                createdAt := Some (now1 env)\<rparr>"

definition createTodo :: "World \<Rightarrow> Env \<Rightarrow> Request \<Rightarrow> World \<times> Response" where
  "createTodo w env req =
     (let todoProps = createTodoProps env req;
          (todo, w1) =
            (case Todo_create (database w) (conn1 env) (now2 env) todoProps of
               (sql', Inl e) \<Rightarrow>
                 (None, console_error ''Error while creating todo:'' e (w\<lparr>database := sql'\<rparr>))
             | (sql', Inr t) \<Rightarrow> (Some t, w\<lparr>database := sql'\<rparr>))
      in (w1, \<lparr>statusCode = Created, message = ''Todo created successfully!'', template = None,
               payload = TodoPayload (map_option props todo),
               redirect = Some (ToTodo (Option.bind todo (\<lambda>t. id_prop (props t))))\<rparr>))"

text \<open>
  The \<^verbatim>\<open>todoProps\<close> that \<^verbatim>\<open>updateTodo\<close> fills from the body: \<^verbatim>\<open>title\<close> and
  \<^verbatim>\<open>description\<close>, each only when truthy.
\<close>

definition updateTodoProps :: "Request \<Rightarrow> TodoProps" where
  "updateTodoProps req =
     (let todoProps0 = emptyProps;
          todoProps1 = (if truthy (title (body req))
                        then todoProps0\<lparr>title := title (body req)\<rparr> else todoProps0)
      in if truthy (description (body req))
         then todoProps1\<lparr>description := description (body req)\<rparr> else todoProps1)"

definition updateTodo :: "World \<Rightarrow> Env \<Rightarrow> Request \<Rightarrow> World \<times> Response" where
  "updateTodo w env req =
     (let todoProps = updateTodoProps req;
          (todo, w1) =
            (case Todo_read (database w) (conn1 env) (getId req) of
               Inl e \<Rightarrow> (None, console_error ''Error while updating todo:'' e w)
             | Inr t \<Rightarrow> (t, w));
          (todo', w2) =
            (case todo of None \<Rightarrow> (None, w1)
             | Some t \<Rightarrow>
                 (case update (database w1) (conn2 env) (now1 env) t todoProps of
                    Inl e \<Rightarrow> (Some t, console_error ''Error while updating todo:'' e w1)
                  | Inr (sql', t') \<Rightarrow> (Some t', w1\<lparr>database := sql'\<rparr>)))
      in (w2, \<lparr>statusCode = OK, message = ''Todo updated successfully!'', template = None,
               payload = TodoPayload (map_option props todo'),
               redirect = Some (ToTodoId (getId req))\<rparr>))"

definition deleteTodo :: "World \<Rightarrow> Env \<Rightarrow> Request \<Rightarrow> World \<times> Response" where
  "deleteTodo w env req =
     (let (todo, w1) =
            (case Todo_read (database w) (conn1 env) (getId req) of
               Inl e \<Rightarrow> (None, console_error ''Error while deleting todo:'' e w)
             | Inr t \<Rightarrow> (t, w));
          w2 =
            (case todo of None \<Rightarrow> w1
             | Some t \<Rightarrow>
                 (case delete (database w1) (conn2 env) t of
                    Inl e \<Rightarrow> console_error ''Error while deleting todo:'' e w1
                  | Inr (sql', one) \<Rightarrow> w1\<lparr>database := sql'\<rparr>))
      in (w2, \<lparr>statusCode = OK, message = ''Todo deleted successfully!'', template = None,
               payload = TodoPayload (map_option props todo), redirect = Some ToTodos\<rparr>))"

definition completeTodo :: "World \<Rightarrow> Env \<Rightarrow> Request \<Rightarrow> World \<times> Response" where
  "completeTodo w env req =
     (let (todo, w1) =
            (case Todo_read (database w) (conn1 env) (getId req) of
               Inl e \<Rightarrow> (None, console_error ''Error while marking todo as complete:'' e w)
             | Inr t \<Rightarrow> (t, w));
          (todo', w2) =
            (case todo of None \<Rightarrow> (None, w1)
             | Some t \<Rightarrow>
                 (case markComplete (database w1) (conn2 env) (now1 env) (now2 env) t of
                    Inl e \<Rightarrow> (Some t, console_error ''Error while marking todo as complete:'' e w1)
                  | Inr (sql', t') \<Rightarrow> (Some t', w1\<lparr>database := sql'\<rparr>)))
      in (w2, \<lparr>statusCode = OK, message = ''Todo marked as complete!'', template = None,
               payload = TodoPayload (map_option props todo'),
               redirect = Some (ToTodoId (getId req))\<rparr>))"

text \<open>\<^verbatim>\<open>registerRoutes\<close>: the bindings, in the order of registration.\<close>

datatype Method = GET | POST | PUT | DELETE

datatype HandlerName =
    GetTodoList | GetNewTodoForm | CreateTodo | GetEditTodoForm
  | GetTodo | UpdateTodo | DeleteTodo | CompleteTodo

definition registerRoutes :: "(Method \<times> string \<times> HandlerName) list" where
  "registerRoutes =
     [(GET, ''/todos'', GetTodoList),
      (GET, ''/todos/new'', GetNewTodoForm),
      (POST, ''/todos'', CreateTodo),
      (GET, ''/todos/:id/edit'', GetEditTodoForm),
      (GET, ''/todos/:id'', GetTodo),
      (PUT, ''/todos/:id'', UpdateTodo),
      (DELETE, ''/todos/:id'', DeleteTodo),
      (PUT, ''/todos/:id/complete'', CompleteTodo)]"

fun handler :: "HandlerName \<Rightarrow> World \<Rightarrow> Env \<Rightarrow> Request \<Rightarrow> World \<times> Response" where
  "handler GetTodoList = getTodoList"
| "handler GetNewTodoForm = getNewTodoForm"
| "handler CreateTodo = createTodo"
| "handler GetEditTodoForm = getEditTodoForm"
| "handler GetTodo = getTodo"
| "handler UpdateTodo = updateTodo"
| "handler DeleteTodo = deleteTodo"
| "handler CompleteTodo = completeTodo"

text \<open>
  A sequence of controller operations: each request is handled to completion, in order, on
  the world the one before left.
\<close>

fun run :: "World \<Rightarrow> (HandlerName \<times> Env \<times> Request) list \<Rightarrow> World" where
  "run w [] = w"
| "run w ((h, env, req) # rest) = run (fst (handler h w env req)) rest"

section \<open>Consistency of the stored ids\<close>

text \<open>
  \<^verbatim>\<open>todos.id\<close> is the primary key and is fed by the sequence: in a database that only ever
  took its ids from the sequence, the ids are distinct and below the next one. The empty
  database the schema script creates is such a database.
\<close>

definition consistent :: "Sql \<Rightarrow> bool" where
  "consistent s \<longleftrightarrow>
     distinct (map id_col (todos s)) \<and> (\<forall>r \<in> set (todos s). id_col r < todos_id_seq s)"

definition initial :: Sql where
  "initial = \<lparr>todos = [], todos_id_seq = 1, subtodos = []\<rparr>"

text \<open>
  \<open>descends s s'\<close>: the sequence did not go back, and every row of \<open>s'\<close> whose id the
  sequence of \<open>s\<close> had handed out is the successor of a row of \<open>s\<close> with that id, complete
  if that one was.
\<close>

definition descends :: "Sql \<Rightarrow> Sql \<Rightarrow> bool" where
  "descends s s' \<longleftrightarrow>
     todos_id_seq s \<le> todos_id_seq s' \<and>
     (\<forall>r' \<in> set (todos s'). id_col r' < todos_id_seq s \<longrightarrow>
        (\<exists>r \<in> set (todos s). id_col r = id_col r' \<and>
           (status_col r = complete \<longrightarrow> status_col r' = complete)))"

section \<open>Sample inputs\<close>

text \<open>
  The Todo the tests create by default, stored under id 1 with one Subtodo, on a database
  whose sequence has handed out that id; a store that serves every statement; and requests
  as the tests send them.
\<close>

definition test_row :: todos_row where
  "test_row = \<lparr>id_col = 1, title_col = ''Test Todo'',
     description_col = ''This is a test todo'', status_col = incomplete, due_at = Some 700,
     created_at = 100, completed_at = None, edited_at = None\<rparr>"

definition test_subtodo :: subtodos_row where
  "test_subtodo = \<lparr>sub_id = 1, sub_title = ''Step'', sub_status = incomplete,
     sub_created_at = 110, sub_completed_at = None, sub_edited_at = None, todo_id = Some 1\<rparr>"

definition test_sql :: Sql where
  "test_sql = \<lparr>todos = [test_row], todos_id_seq = 2, subtodos = [test_subtodo]\<rparr>"

definition test_world :: World where
  "test_world = \<lparr>database = test_sql, console = []\<rparr>"

definition test_todo :: Todo where
  "test_todo = \<lparr>props = rowToProps test_row\<rparr>"

definition serving :: Env where
  "serving = \<lparr>conn1 = None, conn2 = None, now1 = 200, now2 = 201\<rparr>"

text \<open>A request that carries no cookie, hence no session, for the path segment \<open>n\<close>.\<close>

definition anonymous :: "jsnumber \<Rightarrow> TodoProps \<Rightarrow> Request" where
  "anonymous n b = \<lparr>cookies = [], getId = n, body = b\<rparr>"

text \<open>A store that refuses every connection.\<close>

definition unavailable :: Env where
  "unavailable = \<lparr>conn1 = Some (ConnectionError ''connection refused''),
     conn2 = Some (ConnectionError ''connection refused''), now1 = 200, now2 = 201\<rparr>"

section \<open>Evaluation\<close>

text \<open>The definitions a concrete run unfolds.\<close>

lemmas sample_defs = test_row_def test_subtodo_def test_sql_def test_world_def test_todo_def
  serving_def unavailable_def anonymous_def

lemmas entity_defs = Todo_create_def Todo_read_def Todo_readAll_def update_def delete_def
  markComplete_def assign_def keys_def spread_def rowToProps_def emptyProps_def

lemmas handler_defs = getTodoList_def getTodo_def createTodo_def updateTodo_def deleteTodo_def
  completeTodo_def getEditTodoForm_def getNewTodoForm_def truthy_def updateTodoProps_def
  createTodoProps_def console_error_def

section \<open>Properties of the entity module\<close>

text \<open>
  C9. \<^verbatim>\<open>Todo.readAll\<close> does not depend on \<^verbatim>\<open>userId\<close>, \<^verbatim>\<open>filters\<close>, \<^verbatim>\<open>sortBy\<close> or
  \<^verbatim>\<open>orderBy\<close>: two calls against the same store return the same result, and on a store
  that serves the statement the list is every row of \<^verbatim>\<open>todos\<close>, hydrated, whoever asks
  and whatever the filters are.
\<close>

theorem readAll_ignores_arguments:
  "Todo_readAll sql c u1 f1 s1 o1 = Todo_readAll sql c u2 f2 s2 o2
   \<and> Todo_readAll sql None u1 f1 s1 o1 = Inr (map (\<lambda>row. \<lparr>props = rowToProps row\<rparr>) (todos sql))"
  by (simp add: Todo_readAll_def)

subsection \<open>What a successful update writes\<close>

text \<open>
  A supplied key sets its column, \<^verbatim>\<open>edited_at\<close> is stamped, and a column whose key is not
  supplied stays. A successful \<^verbatim>\<open>update\<close> applies this to the rows with the id of the
  Todo, leaves every other row and the Subtodos alone, and hands the new row to \<^verbatim>\<open>props\<close>.
  Setting the same title twice leaves the title of the first time.
\<close>

lemma assign_unsupplied:
  "(id_prop u = None \<longrightarrow> id_col (assign u now r) = id_col r)
   \<and> (title u = Undefined \<longrightarrow> title_col (assign u now r) = title_col r)
   \<and> (description u = Undefined \<longrightarrow> description_col (assign u now r) = description_col r)
   \<and> (status u = None \<longrightarrow> status_col (assign u now r) = status_col r)
   \<and> (dueAt u = None \<longrightarrow> due_at (assign u now r) = due_at r)
   \<and> (createdAt u = None \<longrightarrow> created_at (assign u now r) = created_at r)
   \<and> (completedAt u = None \<longrightarrow> completed_at (assign u now r) = completed_at r)"
  by (simp add: assign_def)

lemma assign_supplied:
  "(id_prop u = Some i \<longrightarrow> id_col (assign u now r) = i)
   \<and> (title u = Str x \<longrightarrow> title_col (assign u now r) = x)
   \<and> (description u = Str d \<longrightarrow> description_col (assign u now r) = d)
   \<and> (status u = Some st \<longrightarrow> status_col (assign u now r) = st)
   \<and> (dueAt u = Some due \<longrightarrow> due_at (assign u now r) = Some due)
   \<and> (createdAt u = Some cr \<longrightarrow> created_at (assign u now r) = cr)
   \<and> (completedAt u = Some co \<longrightarrow> completed_at (assign u now r) = Some co)
   \<and> edited_at (assign u now r) = Some now"
  by (simp add: assign_def)

lemma update_todos:
  assumes "update s c now t u = Inr (s', t')"
  shows "\<exists>i row. id_prop (props t) = Some i \<and> row \<in> set (todos s) \<and> id_col row = i \<and>
           s' = s\<lparr>todos := map (\<lambda>r. if id_col r = i then assign u now r else r) (todos s)\<rparr> \<and>
           t' = t\<lparr>props := spread (props t) (assign u now row)\<rparr>"
proof -
  from assms obtain i where i: "id_prop (props t) = Some i"
    by (auto simp: update_def split: option.splits)
  from assms i obtain row rest where f: "filter (\<lambda>r. id_col r = i) (todos s) = row # rest"
    by (auto simp: update_def Let_def split: option.splits if_splits list.splits)
  have "row \<in> set (filter (\<lambda>r. id_col r = i) (todos s))" by (simp add: f)
  then have row: "row \<in> set (todos s)" "id_col row = i" by auto
  from assms i f have "s' = s\<lparr>todos := map (\<lambda>r. if id_col r = i then assign u now r else r) (todos s)\<rparr>"
    and "t' = t\<lparr>props := spread (props t) (assign u now row)\<rparr>"
    by (auto simp: update_def Let_def split: option.splits if_splits)
  with i row show ?thesis by blast
qed

lemma update_frame:
  assumes "update s c now t u = Inr (s', t')"
  shows "\<exists>i row. id_prop (props t) = Some i \<and> row \<in> set (todos s) \<and> id_col row = i
     \<and> todos s' = map (\<lambda>r. if id_col r = i then assign u now r else r) (todos s)
     \<and> subtodos s' = subtodos s \<and> todos_id_seq s' = todos_id_seq s
     \<and> props t' = (rowToProps (assign u now row))\<lparr>userId := userId (props t)\<rparr>
     \<and> keys u \<noteq> 0 \<and> editedAt u = None"
proof -
  from update_todos[OF assms] obtain i row where
    "id_prop (props t) = Some i" "row \<in> set (todos s)" "id_col row = i"
    "s' = s\<lparr>todos := map (\<lambda>r. if id_col r = i then assign u now r else r) (todos s)\<rparr>"
    "t' = t\<lparr>props := spread (props t) (assign u now row)\<rparr>"
    by blast
  moreover from assms have "keys u \<noteq> 0 \<and> editedAt u = None"
    by (auto simp: update_def split: option.splits if_splits)
  ultimately show ?thesis by (auto simp: spread_def)
qed

lemma update_succeeds:
  assumes "id_prop (props t) = Some i" and "row \<in> set (todos s)" and "id_col row = i"
    and "keys u \<noteq> 0" and "editedAt u = None" and "userId u = None" and "id_prop u = None"
    and "case title u of Str v \<Rightarrow> length v \<le> 255 | Null \<Rightarrow> False | Undefined \<Rightarrow> True"
    and "description u \<noteq> Null"
  shows "\<exists>row'. row' \<in> set (todos s) \<and> id_col row' = i \<and>
     update s None now t u =
       Inr (s\<lparr>todos := map (\<lambda>r. if id_col r = i then assign u now r else r) (todos s)\<rparr>,
            t\<lparr>props := spread (props t) (assign u now row')\<rparr>)"
proof -
  have "row \<in> set (filter (\<lambda>r. id_col r = i) (todos s))" using assms(2,3) by simp
  then obtain row' rest where f: "filter (\<lambda>r. id_col r = i) (todos s) = row' # rest"
    by (cases "filter (\<lambda>r. id_col r = i) (todos s)") auto
  have "row' \<in> set (filter (\<lambda>r. id_col r = i) (todos s))" by (simp add: f)
  then have row': "row' \<in> set (todos s)" "id_col row' = i" by auto
  have "id_col (assign u now row') = i" using assms(7) row'(2) by (simp add: assign_def)
  then have "update s None now t u =
       Inr (s\<lparr>todos := map (\<lambda>r. if id_col r = i then assign u now r else r) (todos s)\<rparr>,
            t\<lparr>props := spread (props t) (assign u now row')\<rparr>)"
    using assms(1,4,5,6,8,9) f by (auto simp: update_def Let_def split: option.splits jstext.splits)
  with row' show ?thesis by blast
qed

lemma title_props:
  "keys (emptyProps\<lparr>title := Str x\<rparr>) \<noteq> 0
   \<and> editedAt (emptyProps\<lparr>title := Str x\<rparr>) = None
   \<and> userId (emptyProps\<lparr>title := Str x\<rparr>) = None
   \<and> id_prop (emptyProps\<lparr>title := Str x\<rparr>) = None
   \<and> title (emptyProps\<lparr>title := Str x\<rparr>) = Str x
   \<and> description (emptyProps\<lparr>title := Str x\<rparr>) = Undefined"
  by (simp add: keys_def emptyProps_def)

lemma update_title_twice:
  assumes "update s None n1 t (emptyProps\<lparr>title := Str x\<rparr>) = Inr (s1, t1)"
  shows "title (props t1) = Str x
     \<and> (\<exists>s2 t2. update s1 None n2 t1 (emptyProps\<lparr>title := Str x\<rparr>) = Inr (s2, t2)
           \<and> title (props t2) = Str x
           \<and> map title_col (todos s2) = map title_col (todos s1))"
proof -
  let ?u = "emptyProps\<lparr>title := Str x\<rparr>"
  from update_todos[OF assms] obtain i row where i: "id_prop (props t) = Some i"
    and row: "row \<in> set (todos s)" "id_col row = i"
    and s1: "s1 = s\<lparr>todos := map (\<lambda>r. if id_col r = i then assign ?u n1 r else r) (todos s)\<rparr>"
    and t1: "t1 = t\<lparr>props := spread (props t) (assign ?u n1 row)\<rparr>"
    by blast
  have len: "length x \<le> 255"
    using assms i by (auto simp: update_def Let_def emptyProps_def split: if_splits list.splits)
  have ti1: "title (props t1) = Str x"
    by (simp add: t1 spread_def rowToProps_def assign_def emptyProps_def)
  have id1: "id_prop (props t1) = Some i"
    using row(2) by (simp add: t1 spread_def rowToProps_def assign_def emptyProps_def)
  let ?r1 = "assign ?u n1 row"
  have r1: "?r1 \<in> set (todos s1)" "id_col ?r1 = i"
    using row by (auto simp: s1 assign_def emptyProps_def)
  have pre: "case title ?u of Str v \<Rightarrow> length v \<le> 255 | Null \<Rightarrow> False | Undefined \<Rightarrow> True"
    using len by (simp add: emptyProps_def)
  from update_succeeds[OF id1 r1 _ _ _ _ pre, of n2] title_props[of x]
  obtain row' where u2: "update s1 None n2 t1 ?u =
       Inr (s1\<lparr>todos := map (\<lambda>r. if id_col r = i then assign ?u n2 r else r) (todos s1)\<rparr>,
            t1\<lparr>props := spread (props t1) (assign ?u n2 row')\<rparr>)"
    by auto
  have same: "\<forall>r \<in> set (todos s1). title_col (if id_col r = i then assign ?u n2 r else r) = title_col r"
  proof
    fix r assume "r \<in> set (todos s1)"
    then obtain r0 where "r0 \<in> set (todos s)" "r = (if id_col r0 = i then assign ?u n1 r0 else r0)"
      by (auto simp: s1)
    then show "title_col (if id_col r = i then assign ?u n2 r else r) = title_col r"
      by (auto simp: assign_def emptyProps_def)
  qed
  then have "map title_col (map (\<lambda>r. if id_col r = i then assign ?u n2 r else r) (todos s1))
      = map title_col (todos s1)"
    by simp
  with u2 ti1 show ?thesis
    by (simp add: spread_def rowToProps_def assign_def emptyProps_def del: map_map)
qed

text \<open>
  C5. \<^verbatim>\<open>update\<close> is to change exactly the supplied fields and to stamp \<^verbatim>\<open>editedAt\<close> for
  every partial property set. For the empty one it does not: the statement reads
  \<^verbatim>\<open>SET , edited_at = ...\<close> and is rejected. The Todo of the tests, updated with no key:
  \<^verbatim>\<open>update\<close> raises, and \<^verbatim>\<open>PUT /todos/1\<close> with an empty body, which reaches \<^verbatim>\<open>update\<close>
  with no key, leaves \<^verbatim>\<open>edited_at\<close> null.
\<close>

theorem update_without_keys_is_rejected:
  "update test_sql None 300 test_todo emptyProps = Inl SyntaxError
   \<and> updateTodoProps (anonymous (Num 1) emptyProps) = emptyProps
   \<and> map edited_at (todos (database (fst (updateTodo test_world serving
                                             (anonymous (Num 1) emptyProps))))) = [None]"
  by (simp add: sample_defs entity_defs handler_defs)

subsection \<open>Marking complete\<close>

lemma complete_props:
  "keys (emptyProps\<lparr>status := Some complete, completedAt := Some n\<rparr>) \<noteq> 0
   \<and> editedAt (emptyProps\<lparr>status := Some complete, completedAt := Some n\<rparr>) = None
   \<and> userId (emptyProps\<lparr>status := Some complete, completedAt := Some n\<rparr>) = None
   \<and> id_prop (emptyProps\<lparr>status := Some complete, completedAt := Some n\<rparr>) = None
   \<and> title (emptyProps\<lparr>status := Some complete, completedAt := Some n\<rparr>) = Undefined
   \<and> description (emptyProps\<lparr>status := Some complete, completedAt := Some n\<rparr>) = Undefined"
  by (simp add: keys_def emptyProps_def)

lemma markComplete_succeeds:
  assumes "id_prop (props t) = Some i" and "row \<in> set (todos s)" and "id_col row = i"
  shows "\<exists>s' t'. markComplete s None nowC nowE t = Inr (s', t')
     \<and> id_prop (props t') = Some i \<and> status (props t') = Some complete
     \<and> map id_col (todos s') = map id_col (todos s)
     \<and> (\<forall>r \<in> set (todos s'). id_col r = i \<longrightarrow> status_col r = complete)
     \<and> ((\<forall>r \<in> set (todos s). id_col r = i \<longrightarrow> status_col r = complete) \<longrightarrow>
           map status_col (todos s') = map status_col (todos s))"
proof -
  let ?u = "emptyProps\<lparr>status := Some complete, completedAt := Some nowC\<rparr>"
  let ?f = "\<lambda>r. if id_col r = i then assign ?u nowE r else r"
  from update_succeeds[OF assms, of ?u nowE] complete_props[of nowC]
  obtain row' where row': "row' \<in> set (todos s)" "id_col row' = i"
    and u: "update s None nowE t ?u =
       Inr (s\<lparr>todos := map ?f (todos s)\<rparr>, t\<lparr>props := spread (props t) (assign ?u nowE row')\<rparr>)"
    by auto
  have idf: "\<And>r. id_col (?f r) = id_col r" by (simp add: assign_def emptyProps_def)
  have stf: "\<And>r. id_col r = i \<Longrightarrow> status_col (?f r) = complete"
    by (simp add: assign_def emptyProps_def)
  have keep: "\<And>r. (id_col r = i \<longrightarrow> status_col r = complete) \<Longrightarrow> status_col (?f r) = status_col r"
    by (simp add: assign_def emptyProps_def)
  have 1: "id_prop (props (t\<lparr>props := spread (props t) (assign ?u nowE row')\<rparr>)) = Some i"
    using row'(2) by (simp add: spread_def rowToProps_def assign_def emptyProps_def)
  have 2: "status (props (t\<lparr>props := spread (props t) (assign ?u nowE row')\<rparr>)) = Some complete"
    by (simp add: spread_def rowToProps_def assign_def emptyProps_def)
  have 3: "map id_col (map ?f (todos s)) = map id_col (todos s)"
    using idf by simp
  have 4: "\<forall>r \<in> set (map ?f (todos s)). id_col r = i \<longrightarrow> status_col r = complete"
  proof
    fix r assume "r \<in> set (map ?f (todos s))"
    then obtain r0 where "r0 \<in> set (todos s)" "r = ?f r0" by auto
    then show "id_col r = i \<longrightarrow> status_col r = complete"
      using idf[of r0] stf[of r0] by auto
  qed
  have 5: "(\<forall>r \<in> set (todos s). id_col r = i \<longrightarrow> status_col r = complete) \<longrightarrow>
           map status_col (map ?f (todos s)) = map status_col (todos s)"
  proof
    assume a: "\<forall>r \<in> set (todos s). id_col r = i \<longrightarrow> status_col r = complete"
    have "\<forall>r \<in> set (todos s). status_col (?f r) = status_col r"
      using keep a by blast
    then show "map status_col (map ?f (todos s)) = map status_col (todos s)"
      by simp
  qed
  show ?thesis
    unfolding markComplete_def u using 1 2 3 4 5 by (simp del: map_map)
qed

text \<open>
  C7. \<^verbatim>\<open>markComplete()\<close> is \<^verbatim>\<open>update({status: complete, completedAt: now})\<close>. On a store
  that serves the statement and for a Todo whose row is stored, whatever its status, the
  call returns without error and the Todo and its row are complete; a second call on the
  result returns without error as well and leaves every status as the first call did.
\<close>

theorem markComplete_is_update_and_idempotent:
  assumes "id_prop (props t) = Some i" and "row \<in> set (todos s)" and "id_col row = i"
  shows "markComplete s c nowC nowE t =
           update s c nowE t (emptyProps\<lparr>status := Some complete, completedAt := Some nowC\<rparr>)
       \<and> (\<exists>s' t'. markComplete s None nowC nowE t = Inr (s', t')
            \<and> status (props t') = Some complete
            \<and> (\<forall>r \<in> set (todos s'). id_col r = i \<longrightarrow> status_col r = complete)
            \<and> (\<exists>s'' t''. markComplete s' None nowC' nowE' t' = Inr (s'', t'')
                 \<and> status (props t'') = Some complete
                 \<and> (\<forall>r \<in> set (todos s''). id_col r = i \<longrightarrow> status_col r = complete)
                 \<and> map status_col (todos s'') = map status_col (todos s')))"
proof -
  from markComplete_succeeds[OF assms, of nowC nowE]
  obtain s' t' where first: "markComplete s None nowC nowE t = Inr (s', t')"
    and id': "id_prop (props t') = Some i" and st': "status (props t') = Some complete"
    and ids: "map id_col (todos s') = map id_col (todos s)"
    and all': "\<forall>r \<in> set (todos s'). id_col r = i \<longrightarrow> status_col r = complete"
    by blast
  have "i \<in> set (map id_col (todos s))" using assms(2,3) by force
  then have "i \<in> set (map id_col (todos s'))" by (simp only: ids)
  then obtain row' where row': "row' \<in> set (todos s')" "id_col row' = i" by auto
  from markComplete_succeeds[OF id' row', of nowC' nowE'] all'
  obtain s'' t'' where "markComplete s' None nowC' nowE' t' = Inr (s'', t'')"
    and "status (props t'') = Some complete"
    and "\<forall>r \<in> set (todos s''). id_col r = i \<longrightarrow> status_col r = complete"
    and "map status_col (todos s'') = map status_col (todos s')"
    by blast
  with first st' all' show ?thesis
    by (simp add: markComplete_def[of s c])
qed

text \<open>The Todo of the tests, marked complete twice.\<close>

theorem markComplete_is_update_and_idempotent_witness:
  "id_prop (props test_todo) = Some 1 \<and> test_row \<in> set (todos test_sql) \<and> id_col test_row = 1
   \<and> (\<exists>s' t'. markComplete test_sql None 200 201 test_todo = Inr (s', t')
        \<and> status (props t') = Some complete
        \<and> (\<exists>s'' t''. markComplete s' None 300 301 t' = Inr (s'', t'')
             \<and> status (props t'') = Some complete
             \<and> map status_col (todos s'') = map status_col (todos s')))"
proof -
  have 1: "id_prop (props test_todo) = Some 1" by (simp add: sample_defs rowToProps_def)
  have 2: "test_row \<in> set (todos test_sql)" by (simp add: test_sql_def)
  have 3: "id_col test_row = 1" by (simp add: test_row_def)
  from markComplete_is_update_and_idempotent [OF 1 2 3, of None 200 201 300 301] 1 2 3
  show ?thesis by blast
qed

subsection \<open>Deleting\<close>

text \<open>
  C8. After \<^verbatim>\<open>delete()\<close> has succeeded on a Todo, no Subtodo references the Todo any
  more, and looking up the id of any Subtodo that belonged to it finds nothing: the rows
  went with the row of the Todo, which is gone too.
\<close>

theorem delete_cascades_to_subtodos:
  assumes "delete s c t = Inr (s', True)" and "id_prop (props t) = Some i"
    and "distinct (map sub_id (subtodos s))"
  shows "filter (\<lambda>x. todo_id x = Some i) (subtodos s') = []
       \<and> (\<forall>sub \<in> set (subtodos s). todo_id sub = Some i \<longrightarrow>
             filter (\<lambda>x. sub_id x = sub_id sub) (subtodos s') = [])
       \<and> filter (\<lambda>r. id_col r = i) (todos s') = []"
proof -
  let ?gone = "filter (\<lambda>r. id_col r = i) (todos s)"
  let ?keep = "\<lambda>x. case todo_id x of None \<Rightarrow> True | Some k \<Rightarrow> k \<notin> set (map id_col ?gone)"
  from assms(1,2) have one: "length ?gone = 1"
    and s': "s' = s\<lparr>todos := filter (\<lambda>r. id_col r \<noteq> i) (todos s),
                    subtodos := filter ?keep (subtodos s)\<rparr>"
    by (auto simp: delete_def Let_def split: option.splits)
  from one obtain r where gone: "?gone = [r]"
    by (cases ?gone) auto
  then have "r \<in> set ?gone" by simp
  then have "id_col r = i" by simp
  with gone have ids: "set (map id_col ?gone) = {i}" by simp
  have keep: "\<And>x. ?keep x \<longleftrightarrow> todo_id x \<noteq> Some i"
    unfolding ids by (simp split: option.splits)
  have "subtodos s' = filter ?keep (subtodos s)"
    by (subst s') simp
  also have "\<dots> = filter (\<lambda>x. todo_id x \<noteq> Some i) (subtodos s)"
    by (rule filter_cong[OF refl]) (rule keep)
  finally have subs: "subtodos s' = filter (\<lambda>x. todo_id x \<noteq> Some i) (subtodos s)" .
  have 1: "filter (\<lambda>x. todo_id x = Some i) (subtodos s') = []"
    unfolding subs by (simp add: filter_empty_conv)
  have 2: "\<forall>sub \<in> set (subtodos s). todo_id sub = Some i \<longrightarrow>
             filter (\<lambda>x. sub_id x = sub_id sub) (subtodos s') = []"
  proof (intro ballI impI)
    fix sub assume sub: "sub \<in> set (subtodos s)" "todo_id sub = Some i"
    have "\<And>x. x \<in> set (subtodos s') \<Longrightarrow> sub_id x \<noteq> sub_id sub"
    proof
      fix x assume x: "x \<in> set (subtodos s')" "sub_id x = sub_id sub"
      then have "x \<in> set (subtodos s)" "todo_id x \<noteq> Some i" by (auto simp: subs)
      with x(2) sub(1) assms(3) have "x = sub"
        by (auto simp: distinct_map inj_on_def)
      with sub(2) \<open>todo_id x \<noteq> Some i\<close> show False by simp
    qed
    then show "filter (\<lambda>x. sub_id x = sub_id sub) (subtodos s') = []"
      by (auto simp: filter_empty_conv)
  qed
  have 3: "filter (\<lambda>r. id_col r = i) (todos s') = []"
    unfolding s' by (simp add: filter_empty_conv)
  from 1 2 3 show ?thesis by blast
qed

text \<open>The Todo of the tests and its Subtodo.\<close>

theorem delete_cascades_to_subtodos_witness:
  "delete test_sql None test_todo = Inr (test_sql\<lparr>todos := [], subtodos := []\<rparr>, True)
   \<and> id_prop (props test_todo) = Some 1
   \<and> distinct (map sub_id (subtodos test_sql))
   \<and> test_subtodo \<in> set (subtodos test_sql) \<and> todo_id test_subtodo = Some 1
   \<and> filter (\<lambda>x. sub_id x = sub_id test_subtodo) (subtodos (test_sql\<lparr>todos := [], subtodos := []\<rparr>)) = []"
proof -
  have d: "delete test_sql None test_todo = Inr (test_sql\<lparr>todos := [], subtodos := []\<rparr>, True)"
    by (simp add: sample_defs delete_def rowToProps_def)
  have i: "id_prop (props test_todo) = Some 1"
    by (simp add: sample_defs rowToProps_def)
  have k: "distinct (map sub_id (subtodos test_sql))"
    by (simp add: sample_defs)
  show ?thesis
    using d i k delete_cascades_to_subtodos[OF d i k] by (simp add: sample_defs)
qed

section \<open>Properties of the controller\<close>

text \<open>
  No handler reads the cookies of the request, and the status a handler sends is fixed:
  \<^verbatim>\<open>Created\<close> for \<^verbatim>\<open>createTodo\<close>, \<^verbatim>\<open>OK\<close> for every other one.
\<close>

lemma database_console_error [simp]: "database (console_error msg e w) = database w"
  by (simp add: console_error_def)

lemma todoProps_ignore_cookies:
  "updateTodoProps (req\<lparr>cookies := ck\<rparr>) = updateTodoProps req
   \<and> createTodoProps env (req\<lparr>cookies := ck\<rparr>) = createTodoProps env req"
  by (simp add: updateTodoProps_def createTodoProps_def)

lemma handler_ignores_cookies:
  "handler h w env (req\<lparr>cookies := ck\<rparr>) = handler h w env req"
  by (cases h)
     (simp_all add: getTodoList_def getNewTodoForm_def createTodo_def getEditTodoForm_def
        getTodo_def updateTodo_def deleteTodo_def completeTodo_def todoProps_ignore_cookies)

lemma handler_status:
  "statusCode (snd (handler h w env req)) = (if h = CreateTodo then Created else OK)"
  by (cases h)
     (simp_all add: getTodoList_def getNewTodoForm_def createTodo_def getEditTodoForm_def
        getTodo_def updateTodo_def deleteTodo_def completeTodo_def Let_def
        split: prod.splits)

text \<open>
  C1. A request to a Todo route that carries no session is to be answered with 401 and to
  reach no operation of the entity module. The handlers answer it like any other: on the
  database of the tests the six routes answer a request without cookies with 200 (201 for
  \<^verbatim>\<open>POST /todos\<close>), \<^verbatim>\<open>GET /todos\<close> hands out the stored Todo and \<^verbatim>\<open>DELETE /todos/1\<close>
  deletes it.
\<close>

theorem unauthenticated_requests_are_served:
  "cookies (anonymous (Num 1) emptyProps) = []
   \<and> map (\<lambda>h. statusNumber (statusCode (snd (handler h test_world serving
                                                (anonymous (Num 1) emptyProps)))))
        [GetTodoList, GetTodo, CreateTodo, UpdateTodo, DeleteTodo, CompleteTodo]
      = [200, 200, 201, 200, 200, 200]
   \<and> payload (snd (getTodoList test_world serving (anonymous (Num 1) emptyProps)))
      = ListPayload ''Todo List'' [(rowToProps test_row, False)]
   \<and> todos (database (fst (deleteTodo test_world serving (anonymous (Num 1) emptyProps)))) = []"
  by (simp add: sample_defs entity_defs handler_defs)

text \<open>
  C2. \<^verbatim>\<open>POST /todos\<close> without a title is to be answered with 400. The body of the test
  "Todo was not created due to missing title": the client refuses the undefined title,
  the handler prints the error, creates nothing and answers 201.
\<close>

theorem createTodo_without_title_answers_created:
  "statusNumber (statusCode (snd (createTodo test_world serving
       (anonymous NaN (emptyProps\<lparr>description := Str ''This is a test todo'',
                                   dueAt := Some 900, userId := Some 1\<rparr>))))) = 201
   \<and> fst (createTodo test_world serving
       (anonymous NaN (emptyProps\<lparr>description := Str ''This is a test todo'',
                                   dueAt := Some 900, userId := Some 1\<rparr>)))
     = console_error ''Error while creating todo:'' UndefinedValue test_world"
  by (simp add: sample_defs entity_defs handler_defs)

text \<open>
  C3. \<^verbatim>\<open>GET /todos/:id\<close> is to answer 400 to an id that is not numeric and 404 to an id
  that no row has. \<^verbatim>\<open>getTodo\<close> answers 200 to both: with \<open>NaN\<close> the read raises and is
  caught; with the id 2, which the database of the tests does not hold, the read finds
  nothing.
\<close>

theorem getTodo_answers_ok_without_a_todo:
  "statusNumber (statusCode (snd (getTodo test_world serving (anonymous NaN emptyProps)))) = 200
   \<and> Todo_read test_sql None (Num 2) = Inr None
   \<and> statusNumber (statusCode (snd (getTodo test_world serving (anonymous (Num 2) emptyProps)))) = 200"
  by (simp add: sample_defs entity_defs handler_defs)

text \<open>
  C4. A handler whose call of the entity module raises a store error is to answer 500.
  The handlers catch the error and print it, and then answer as if the call had succeeded.
  With a store that refuses the connection, \<^verbatim>\<open>Todo.readAll\<close> raises and \<^verbatim>\<open>getTodoList\<close>
  prints the error and answers 200 with an empty list; \<^verbatim>\<open>Todo.create\<close> raises and
  \<^verbatim>\<open>createTodo\<close> answers 201 without a todo and redirects to \<^verbatim>\<open>/todos/undefined\<close>.
\<close>

theorem store_error_is_answered_with_success:
  "Todo_readAll (database test_world) (conn1 unavailable) None None None None
     = Inl (ConnectionError ''connection refused'')
   \<and> console (fst (getTodoList test_world unavailable (anonymous NaN emptyProps)))
     = [(''Error while getting todo list: '', ConnectionError ''connection refused'')]
   \<and> statusNumber (statusCode (snd (getTodoList test_world unavailable
                                      (anonymous NaN emptyProps)))) = 200
   \<and> payload (snd (getTodoList test_world unavailable (anonymous NaN emptyProps)))
     = ListPayload ''Todo List'' []
   \<and> snd (Todo_create (database test_world) (conn1 unavailable) (now2 unavailable)
        (createTodoProps unavailable (anonymous NaN
           (emptyProps\<lparr>title := Str ''Test Todo'', description := Str ''This is a test todo''\<rparr>))))
     = Inl (ConnectionError ''connection refused'')
   \<and> statusNumber (statusCode (snd (createTodo test_world unavailable (anonymous NaN
           (emptyProps\<lparr>title := Str ''Test Todo'', description := Str ''This is a test todo''\<rparr>)))))
     = 201
   \<and> payload (snd (createTodo test_world unavailable (anonymous NaN
           (emptyProps\<lparr>title := Str ''Test Todo'', description := Str ''This is a test todo''\<rparr>))))
     = TodoPayload None
   \<and> redirect (snd (createTodo test_world unavailable (anonymous NaN
           (emptyProps\<lparr>title := Str ''Test Todo'', description := Str ''This is a test todo''\<rparr>))))
     = Some (ToTodo None)"
  by (simp add: sample_defs entity_defs handler_defs)

text \<open>
  A rejected insert is not without trace in the database. \<^verbatim>\<open>POST /todos\<close> with a null
  title: the statement is sent, the row draws the id 2 and is rejected, and the sequence
  stands at 3.
\<close>

lemma createTodo_null_title_spends_id:
  "fst (createTodo test_world serving
          (anonymous NaN (emptyProps\<lparr>title := Null, description := Str ''This is a test todo''\<rparr>)))
     = \<lparr>database = test_sql\<lparr>todos_id_seq := 3\<rparr>,
        console = [(''Error while creating todo:'', NotNullViolation ''title'')]\<rparr>"
  by (simp add: sample_defs entity_defs handler_defs)

lemma create_returns:
  assumes "Todo_create s c now p = (s', Inr t)" and "id_prop p = None"
  shows "\<exists>ti de row. title p = Str ti \<and> description p = Str de \<and>
     row = \<lparr>id_col = todos_id_seq s, title_col = ti, description_col = de,
             status_col = (case status p of None \<Rightarrow> incomplete | Some x \<Rightarrow> x),
             due_at = dueAt p,
             created_at = (case createdAt p of None \<Rightarrow> now | Some d \<Rightarrow> d),
             completed_at = completedAt p, edited_at = editedAt p\<rparr> \<and>
     todos s' = todos s @ [row] \<and> t = \<lparr>props = rowToProps row\<rparr>"
  using assms
  by (auto simp: Todo_create_def Let_def split: option.splits if_splits jstext.splits)

text \<open>
  C10. \<^verbatim>\<open>createTodo\<close> builds the new Todo from the \<^verbatim>\<open>title\<close> and \<^verbatim>\<open>description\<close> of the
  body and from nothing else of the request: two requests that agree on these two fields
  are handled alike, whatever \<^verbatim>\<open>dueAt\<close> and \<^verbatim>\<open>userId\<close> they carry. A created record has
  no \<^verbatim>\<open>dueAt\<close> and no \<^verbatim>\<open>userId\<close>, its status is \<^verbatim>\<open>incomplete\<close> and its \<^verbatim>\<open>createdAt\<close> is
  the reading of the server's clock; so is the row the store keeps.
\<close>

theorem createTodo_reads_title_and_description_only:
  assumes "title (body req) = title (body req')"
    and "description (body req) = description (body req')"
  shows "createTodo w env req = createTodo w env req'
       \<and> (\<forall>p. payload (snd (createTodo w env req)) = TodoPayload (Some p) \<longrightarrow>
             title p = title (body req) \<and> description p = description (body req)
             \<and> status p = Some incomplete \<and> createdAt p = Some (now1 env)
             \<and> dueAt p = None \<and> userId p = None \<and> completedAt p = None \<and> editedAt p = None
             \<and> (\<exists>row. todos (database (fst (createTodo w env req))) = todos (database w) @ [row]
                   \<and> p = rowToProps row
                   \<and> status_col row = incomplete \<and> created_at row = now1 env
                   \<and> due_at row = None))"
proof -
  let ?p = "createTodoProps env req"
  have 1: "createTodo w env req = createTodo w env req'"
    using assms by (simp add: createTodo_def createTodoProps_def)
  obtain s' r where c: "Todo_create (database w) (conn1 env) (now2 env) ?p = (s', r)"
    by (cases "Todo_create (database w) (conn1 env) (now2 env) ?p")
  have fields: "id_prop ?p = None" "title ?p = title (body req)"
    "description ?p = description (body req)" "status ?p = Some incomplete"
    "dueAt ?p = None" "createdAt ?p = Some (now1 env)" "completedAt ?p = None"
    "editedAt ?p = None"
    by (simp_all add: createTodoProps_def emptyProps_def)
  have 2: "\<forall>p. payload (snd (createTodo w env req)) = TodoPayload (Some p) \<longrightarrow>
             title p = title (body req) \<and> description p = description (body req)
             \<and> status p = Some incomplete \<and> createdAt p = Some (now1 env)
             \<and> dueAt p = None \<and> userId p = None \<and> completedAt p = None \<and> editedAt p = None
             \<and> (\<exists>row. todos (database (fst (createTodo w env req))) = todos (database w) @ [row]
                   \<and> p = rowToProps row
                   \<and> status_col row = incomplete \<and> created_at row = now1 env
                   \<and> due_at row = None)"
  proof (cases r)
    case (Inl e)
    then show ?thesis using c by (simp add: createTodo_def)
  next
    case (Inr t)
    from create_returns[OF c[unfolded Inr] fields(1)] obtain ti de row where
      row: "title ?p = Str ti" "description ?p = Str de"
        "row = \<lparr>id_col = todos_id_seq (database w), title_col = ti, description_col = de,
           status_col = (case status ?p of None \<Rightarrow> incomplete | Some x \<Rightarrow> x),
           due_at = dueAt ?p,
           created_at = (case createdAt ?p of None \<Rightarrow> now2 env | Some d \<Rightarrow> d),
           completed_at = completedAt ?p, edited_at = editedAt ?p\<rparr>"
        "todos s' = todos (database w) @ [row]" "t = \<lparr>props = rowToProps row\<rparr>"
      by blast
    have pay: "payload (snd (createTodo w env req)) = TodoPayload (Some (rowToProps row))"
      using c Inr row(5) by (simp add: createTodo_def)
    have db: "todos (database (fst (createTodo w env req))) = todos (database w) @ [row]"
      using c Inr row(4) by (simp add: createTodo_def)
    have r1: "status_col row = incomplete" "created_at row = now1 env" "due_at row = None"
      "completed_at row = None" "edited_at row = None"
      "Str (title_col row) = title (body req)" "Str (description_col row) = description (body req)"
      using row(1,2) by (simp_all add: row(3) fields)
    show ?thesis
      using pay db r1 by (auto simp: rowToProps_def)
  qed
  from 1 2 show ?thesis by blast
qed

text \<open>
  The body of the test "Todo was created", with \<^verbatim>\<open>dueAt\<close> and \<^verbatim>\<open>userId\<close>, and the
  same title and description alone.
\<close>

theorem createTodo_reads_title_and_description_only_witness:
  "title (body (anonymous NaN (emptyProps\<lparr>title := Str ''Test Todo'',
       description := Str ''This is a test todo'', dueAt := Some 900, userId := Some 1\<rparr>)))
   = title (body (anonymous (Num 5) (emptyProps\<lparr>title := Str ''Test Todo'',
       description := Str ''This is a test todo''\<rparr>)))
   \<and> description (body (anonymous NaN (emptyProps\<lparr>title := Str ''Test Todo'',
       description := Str ''This is a test todo'', dueAt := Some 900, userId := Some 1\<rparr>)))
   = description (body (anonymous (Num 5) (emptyProps\<lparr>title := Str ''Test Todo'',
       description := Str ''This is a test todo''\<rparr>)))
   \<and> createTodo test_world serving (anonymous NaN (emptyProps\<lparr>title := Str ''Test Todo'',
       description := Str ''This is a test todo'', dueAt := Some 900, userId := Some 1\<rparr>))
   = createTodo test_world serving (anonymous (Num 5) (emptyProps\<lparr>title := Str ''Test Todo'',
       description := Str ''This is a test todo''\<rparr>))
   \<and> payload (snd (createTodo test_world serving (anonymous NaN (emptyProps\<lparr>title := Str ''Test Todo'',
       description := Str ''This is a test todo'', dueAt := Some 900, userId := Some 1\<rparr>))))
   = TodoPayload (Some \<lparr>id_prop = Some 2, title = Str ''Test Todo'',
        description = Str ''This is a test todo'', status = Some incomplete, dueAt = None,
        createdAt = Some 200, completedAt = None, editedAt = None, userId = None\<rparr>)"
proof -
  let ?req = "anonymous NaN (emptyProps\<lparr>title := Str ''Test Todo'',
       description := Str ''This is a test todo'', dueAt := Some 900, userId := Some 1\<rparr>)"
  let ?req' = "anonymous (Num 5) (emptyProps\<lparr>title := Str ''Test Todo'',
       description := Str ''This is a test todo''\<rparr>)"
  have 1: "title (body ?req) = title (body ?req')" by (simp add: anonymous_def)
  have 2: "description (body ?req) = description (body ?req')" by (simp add: anonymous_def)
  have 3: "payload (snd (createTodo test_world serving ?req))
   = TodoPayload (Some \<lparr>id_prop = Some 2, title = Str ''Test Todo'',
        description = Str ''This is a test todo'', status = Some incomplete, dueAt = None,
        createdAt = Some 200, completedAt = None, editedAt = None, userId = None\<rparr>)"
    by (simp add: sample_defs entity_defs handler_defs)
  from createTodo_reads_title_and_description_only [OF 1 2, of test_world serving] 1 2 3
  show ?thesis by blast
qed

subsection \<open>The status of a stored Todo\<close>

text \<open>
  Every handler keeps the ids consistent and leaves a database that descends from the one
  it found: \<^verbatim>\<open>updateTodo\<close> supplies \<^verbatim>\<open>title\<close> and \<^verbatim>\<open>description\<close> at most, so it keeps
  every status; \<^verbatim>\<open>completeTodo\<close> supplies the status \<^verbatim>\<open>complete\<close>; \<^verbatim>\<open>createTodo\<close> adds
  at most one row, under an id the sequence had not handed out, and may spend that id
  without adding the row; \<^verbatim>\<open>deleteTodo\<close> removes rows.
\<close>

lemma initial_consistent: "consistent initial"
  by (simp add: consistent_def initial_def)

lemma descends_refl: "descends s s"
  by (auto simp: descends_def)

lemma descends_trans:
  assumes "descends a b" and "descends b c"
  shows "descends a c"
  unfolding descends_def
proof (intro conjI ballI impI)
  show "todos_id_seq a \<le> todos_id_seq c"
    using assms by (simp add: descends_def)
next
  fix r' assume r': "r' \<in> set (todos c)" and lt: "id_col r' < todos_id_seq a"
  have "id_col r' < todos_id_seq b" using lt assms(1) by (simp add: descends_def)
  with r' assms(2) obtain r1 where r1: "r1 \<in> set (todos b)" "id_col r1 = id_col r'"
    "status_col r1 = complete \<longrightarrow> status_col r' = complete"
    unfolding descends_def by blast
  from r1 lt assms(1) obtain r where "r \<in> set (todos a)" "id_col r = id_col r1"
    "status_col r = complete \<longrightarrow> status_col r1 = complete"
    unfolding descends_def by force
  with r1 show "\<exists>r\<in>set (todos a). id_col r = id_col r' \<and> (status_col r = complete \<longrightarrow> status_col r' = complete)"
    by auto
qed

lemma create_step:
  assumes "Todo_create s c now p = (s', r)" and "id_prop p = None" and "consistent s"
  shows "consistent s' \<and> descends s s'"
proof -
  let ?drawn = "s\<lparr>todos_id_seq := todos_id_seq s + 1\<rparr>"
  from assms(1,2) have "s' = s \<or> s' = ?drawn \<or>
      (\<exists>row. s' = ?drawn\<lparr>todos := todos s @ [row]\<rparr> \<and> id_col row = todos_id_seq s
         \<and> todos_id_seq s \<notin> set (map id_col (todos s)))"
    by (auto simp: Todo_create_def Let_def split: option.splits if_splits jstext.splits)
  then consider (same) "s' = s" | (drawn) "s' = ?drawn"
    | (row) row where "s' = ?drawn\<lparr>todos := todos s @ [row]\<rparr>"
        "id_col row = todos_id_seq s" "todos_id_seq s \<notin> set (map id_col (todos s))"
    by blast
  then show ?thesis
  proof cases
    case same
    then show ?thesis using assms(3) by (simp add: descends_refl)
  next
    case drawn
    have "consistent s'"
      using assms(3) unfolding consistent_def drawn by force
    moreover have "descends s s'"
      unfolding descends_def drawn by auto
    ultimately show ?thesis by blast
  next
    case row
    have "consistent s'"
      using assms(3) row(2,3) unfolding consistent_def row(1) by force
    moreover have "descends s s'"
      unfolding descends_def row(1) using row(2) by auto
    ultimately show ?thesis by blast
  qed
qed

lemma id_col_assign: "id_prop u = None \<Longrightarrow> id_col (assign u now r) = id_col r"
  by (simp add: assign_def)

lemma status_col_assign:
  "status_col (assign u now r) = (case status u of None \<Rightarrow> status_col r | Some v \<Rightarrow> v)"
  by (simp add: assign_def)

lemma update_step:
  assumes "update s c now t u = Inr (s', t')" and "id_prop u = None"
    and "status u \<noteq> Some incomplete" and "consistent s"
  shows "consistent s' \<and> descends s s'"
proof -
  from update_todos[OF assms(1)] obtain i where
    s': "s' = s\<lparr>todos := map (\<lambda>r. if id_col r = i then assign u now r else r) (todos s)\<rparr>"
    by blast
  let ?f = "\<lambda>r. if id_col r = i then assign u now r else r"
  have ids: "map id_col (map ?f (todos s)) = map id_col (todos s)"
    using assms(2) by (simp add: id_col_assign)
  have st: "\<And>r. status_col r = complete \<Longrightarrow> status_col (?f r) = complete"
    using assms(3) by (cases "status u") (auto simp: status_col_assign intro: todo_status.exhaust)
  have idf: "\<And>r. id_col (?f r) = id_col r"
    using assms(2) by (simp add: id_col_assign)
  have "\<And>r'. r' \<in> set (map ?f (todos s)) \<Longrightarrow> id_col r' < todos_id_seq s"
  proof -
    fix r' assume "r' \<in> set (map ?f (todos s))"
    then obtain r where "r \<in> set (todos s)" "r' = ?f r" by auto
    then show "id_col r' < todos_id_seq s"
      using assms(4) idf[of r] by (simp add: consistent_def)
  qed
  then have "consistent s'"
    using assms(4) ids unfolding consistent_def s' by (simp del: map_map set_map)
  moreover have "descends s s'"
    unfolding descends_def
  proof (intro conjI ballI impI)
    show "todos_id_seq s \<le> todos_id_seq s'" by (simp add: s')
  next
    fix r' assume "r' \<in> set (todos s')"
    then obtain r where r: "r \<in> set (todos s)" "r' = ?f r" by (auto simp: s')
    have "id_col r = id_col r'" using r(2) idf[of r] by simp
    moreover have "status_col r = complete \<longrightarrow> status_col r' = complete"
      using st[of r] r(2) by simp
    ultimately show "\<exists>r\<in>set (todos s). id_col r = id_col r' \<and>
        (status_col r = complete \<longrightarrow> status_col r' = complete)"
      using r(1) by blast
  qed
  ultimately show ?thesis by blast
qed

lemma delete_step:
  assumes "delete s c t = Inr (s', b)" and "consistent s"
  shows "consistent s' \<and> descends s s'"
  using assms
  by (auto simp: delete_def consistent_def descends_def Let_def distinct_map_filter
           split: option.splits if_splits)

lemma updateTodoProps_keys:
  "id_prop (updateTodoProps req) = None \<and> status (updateTodoProps req) = None"
  by (simp add: updateTodoProps_def emptyProps_def Let_def)

lemma updateTodo_keeps_status:
  "map status_col (todos (database (fst (updateTodo w env req))))
     = map status_col (todos (database w))"
proof (cases "Todo_read (database w) (conn1 env) (getId req)")
  case (Inl e)
  then show ?thesis by (simp add: updateTodo_def)
next
  case (Inr found)
  show ?thesis
  proof (cases found)
    case None
    then show ?thesis using Inr by (simp add: updateTodo_def)
  next
    case (Some t)
    show ?thesis
    proof (cases "update (database w) (conn2 env) (now1 env) t (updateTodoProps req)")
      case (Inl e)
      then show ?thesis using Inr Some by (simp add: updateTodo_def)
    next
      case (Inr p)
      obtain s' t' where p: "p = (s', t')" by (cases p)
      from update_todos[OF Inr[unfolded p]] obtain i where
        s': "s' = (database w)\<lparr>todos := map (\<lambda>r. if id_col r = i
                   then assign (updateTodoProps req) (now1 env) r else r) (todos (database w))\<rparr>"
        by blast
      have "\<And>r. status_col (if id_col r = i then assign (updateTodoProps req) (now1 env) r else r)
          = status_col r"
        using updateTodoProps_keys[of req] by (simp add: assign_def)
      then have "map status_col (todos s') = map status_col (todos (database w))"
        by (simp add: s')
      then show ?thesis using \<open>Todo_read _ _ _ = Inr found\<close> Some Inr p
        by (simp add: updateTodo_def)
    qed
  qed
qed

lemma getTodoList_step:
  "database (fst (getTodoList w env req)) = database w"
  by (simp add: getTodoList_def Let_def split: sum.splits prod.splits)

lemma getTodo_step:
  "database (fst (getTodo w env req)) = database w"
  by (simp add: getTodo_def Let_def split: sum.splits prod.splits)

lemma getEditTodoForm_step:
  "database (fst (getEditTodoForm w env req)) = database w"
  by (simp add: getEditTodoForm_def Let_def split: sum.splits prod.splits)

lemma getNewTodoForm_step:
  "database (fst (getNewTodoForm w env req)) = database w"
  by (simp add: getNewTodoForm_def)

lemma createTodo_step:
  assumes "consistent (database w)"
  shows "consistent (database (fst (createTodo w env req))) \<and>
         descends (database w) (database (fst (createTodo w env req)))"
proof -
  obtain s' r where c: "Todo_create (database w) (conn1 env) (now2 env)
      (createTodoProps env req) = (s', r)"
    by (cases "Todo_create (database w) (conn1 env) (now2 env) (createTodoProps env req)")
  have p: "id_prop (createTodoProps env req) = None"
    by (simp add: createTodoProps_def emptyProps_def)
  have "database (fst (createTodo w env req)) = s'"
    using c by (cases r) (simp_all add: createTodo_def)
  with create_step[OF c p assms] show ?thesis by simp
qed

lemma updateTodo_step:
  assumes "consistent (database w)"
  shows "consistent (database (fst (updateTodo w env req))) \<and>
         descends (database w) (database (fst (updateTodo w env req)))"
proof (cases "Todo_read (database w) (conn1 env) (getId req)")
  case (Inl e)
  then show ?thesis using assms by (simp add: updateTodo_def Let_def descends_refl)
next
  case (Inr found)
  show ?thesis
  proof (cases found)
    case None
    then show ?thesis using Inr assms by (simp add: updateTodo_def Let_def descends_refl)
  next
    case (Some t)
    show ?thesis
    proof (cases "update (database w) (conn2 env) (now1 env) t (updateTodoProps req)")
      case (Inl e)
      then show ?thesis using Inr Some assms by (simp add: updateTodo_def Let_def descends_refl)
    next
      case (Inr p)
      obtain s' t' where p: "p = (s', t')" by (cases p)
      have "consistent s' \<and> descends (database w) s'"
        using update_step[OF Inr[unfolded p] _ _ assms] by (simp add: updateTodoProps_keys)
      then show ?thesis using \<open>Todo_read _ _ _ = Inr found\<close> Some Inr p
        by (simp add: updateTodo_def Let_def)
    qed
  qed
qed

lemma completeTodo_step:
  assumes "consistent (database w)"
  shows "consistent (database (fst (completeTodo w env req))) \<and>
         descends (database w) (database (fst (completeTodo w env req)))"
proof (cases "Todo_read (database w) (conn1 env) (getId req)")
  case (Inl e)
  then show ?thesis using assms by (simp add: completeTodo_def Let_def descends_refl)
next
  case (Inr found)
  show ?thesis
  proof (cases found)
    case None
    then show ?thesis using Inr assms by (simp add: completeTodo_def Let_def descends_refl)
  next
    case (Some t)
    show ?thesis
    proof (cases "markComplete (database w) (conn2 env) (now1 env) (now2 env) t")
      case (Inl e)
      then show ?thesis using Inr Some assms by (simp add: completeTodo_def Let_def descends_refl)
    next
      case (Inr p)
      obtain s' t' where p: "p = (s', t')" by (cases p)
      have "consistent s' \<and> descends (database w) s'"
        using update_step[OF Inr[unfolded p markComplete_def] _ _ assms] by (simp add: emptyProps_def)
      then show ?thesis using \<open>Todo_read _ _ _ = Inr found\<close> Some Inr p
        by (simp add: completeTodo_def Let_def)
    qed
  qed
qed

lemma deleteTodo_step:
  assumes "consistent (database w)"
  shows "consistent (database (fst (deleteTodo w env req))) \<and>
         descends (database w) (database (fst (deleteTodo w env req)))"
proof (cases "Todo_read (database w) (conn1 env) (getId req)")
  case (Inl e)
  then show ?thesis using assms by (simp add: deleteTodo_def Let_def descends_refl)
next
  case (Inr found)
  show ?thesis
  proof (cases found)
    case None
    then show ?thesis using Inr assms by (simp add: deleteTodo_def Let_def descends_refl)
  next
    case (Some t)
    show ?thesis
    proof (cases "delete (database w) (conn2 env) t")
      case (Inl e)
      then show ?thesis using Inr Some assms by (simp add: deleteTodo_def Let_def descends_refl)
    next
      case (Inr p)
      obtain s' b where p: "p = (s', b)" by (cases p)
      have "consistent s' \<and> descends (database w) s'"
        using delete_step[OF Inr[unfolded p] assms] .
      then show ?thesis using \<open>Todo_read _ _ _ = Inr found\<close> Some Inr p
        by (simp add: deleteTodo_def Let_def)
    qed
  qed
qed

lemma handler_step:
  assumes "consistent (database w)"
  shows "consistent (database (fst (handler h w env req))) \<and>
         descends (database w) (database (fst (handler h w env req)))"
proof (cases h)
  case GetTodoList
  then show ?thesis using assms by (simp add: getTodoList_step descends_refl)
next
  case GetNewTodoForm
  then show ?thesis using assms by (simp add: getNewTodoForm_step descends_refl)
next
  case CreateTodo
  then show ?thesis using createTodo_step[OF assms] by simp
next
  case GetEditTodoForm
  then show ?thesis using assms by (simp add: getEditTodoForm_step descends_refl)
next
  case GetTodo
  then show ?thesis using assms by (simp add: getTodo_step descends_refl)
next
  case UpdateTodo
  then show ?thesis using updateTodo_step[OF assms] by simp
next
  case DeleteTodo
  then show ?thesis using deleteTodo_step[OF assms] by simp
next
  case CompleteTodo
  then show ?thesis using completeTodo_step[OF assms] by simp
qed

lemma run_append: "run w (xs @ ys) = run (run w xs) ys"
  by (induction xs arbitrary: w) auto

lemma run_descends:
  "consistent (database w) \<Longrightarrow>
     consistent (database (run w calls)) \<and> descends (database w) (database (run w calls))"
proof (induction calls arbitrary: w)
  case Nil
  then show ?case by (simp add: descends_refl)
next
  case (Cons call calls)
  obtain h env req where call: "call = (h, env, req)" by (cases call)
  let ?w1 = "fst (handler h w env req)"
  from handler_step[OF Cons.prems, of h env req]
  have 1: "consistent (database ?w1)" and 2: "descends (database w) (database ?w1)" by auto
  from Cons.IH[OF 1]
  have "consistent (database (run ?w1 calls))"
    and "descends (database ?w1) (database (run ?w1 calls))" by auto
  with 2 show ?case by (auto simp: call intro: descends_trans)
qed

lemma descends_complete:
  assumes "descends s s'" and "consistent s"
    and "r \<in> set (todos s)" and "status_col r = complete"
    and "r' \<in> set (todos s')" and "id_col r' = id_col r"
  shows "status_col r' = complete"
proof -
  have "id_col r' < todos_id_seq s" using assms(2,3,6) by (simp add: consistent_def)
  with assms(1,5) obtain r0 where r0: "r0 \<in> set (todos s)" "id_col r0 = id_col r'"
    "status_col r0 = complete \<longrightarrow> status_col r' = complete"
    unfolding descends_def by blast
  have "r0 = r"
    using assms(2,3,6) r0(1,2) by (auto simp: consistent_def distinct_map inj_on_def)
  with r0(3) assms(4) show ?thesis by simp
qed

text \<open>
  C6. Along every sequence of controller operations, from any database with consistent ids
  (the empty one is), no Todo goes from complete back to incomplete: a row that is
  complete after the operations \<open>before\<close> is complete after any further operations
  \<open>after\<close>, as long as a row with its id is stored.
\<close>

theorem status_never_reopens:
  assumes "consistent (database w)"
    and "r \<in> set (todos (database (run w before)))" and "status_col r = complete"
    and "r' \<in> set (todos (database (run w (before @ after))))" and "id_col r' = id_col r"
  shows "status_col r' = complete"
proof -
  let ?w1 = "run w before"
  have c1: "consistent (database ?w1)" using run_descends[OF assms(1)] by blast
  have "descends (database ?w1) (database (run ?w1 after))"
    using run_descends[OF c1] by blast
  then show ?thesis
    using descends_complete[OF _ c1 assms(2,3) _ assms(5)] assms(4) by (simp add: run_append)
qed

text \<open>
  The Todo of the tests, completed, then renamed, then joined by a new Todo: it is still
  complete.
\<close>

theorem status_never_reopens_witness:
  "consistent (database test_world)
   \<and> test_row\<lparr>status_col := complete, completed_at := Some 200, edited_at := Some 201\<rparr>
       \<in> set (todos (database (run test_world
            [(CompleteTodo, serving, anonymous (Num 1) emptyProps)])))
   \<and> hd (todos (database (run test_world
        ([(CompleteTodo, serving, anonymous (Num 1) emptyProps)] @
         [(UpdateTodo, serving, anonymous (Num 1) (emptyProps\<lparr>title := Str ''Again''\<rparr>)),
          (CreateTodo, serving, anonymous NaN
             (emptyProps\<lparr>title := Str ''Next'', description := Str ''One more''\<rparr>))]))))
       \<in> set (todos (database (run test_world
        ([(CompleteTodo, serving, anonymous (Num 1) emptyProps)] @
         [(UpdateTodo, serving, anonymous (Num 1) (emptyProps\<lparr>title := Str ''Again''\<rparr>)),
          (CreateTodo, serving, anonymous NaN
             (emptyProps\<lparr>title := Str ''Next'', description := Str ''One more''\<rparr>))]))))
   \<and> title_col (hd (todos (database (run test_world
        ([(CompleteTodo, serving, anonymous (Num 1) emptyProps)] @
         [(UpdateTodo, serving, anonymous (Num 1) (emptyProps\<lparr>title := Str ''Again''\<rparr>)),
          (CreateTodo, serving, anonymous NaN
             (emptyProps\<lparr>title := Str ''Next'', description := Str ''One more''\<rparr>))]))))) = ''Again''
   \<and> status_col (hd (todos (database (run test_world
        ([(CompleteTodo, serving, anonymous (Num 1) emptyProps)] @
         [(UpdateTodo, serving, anonymous (Num 1) (emptyProps\<lparr>title := Str ''Again''\<rparr>)),
          (CreateTodo, serving, anonymous NaN
             (emptyProps\<lparr>title := Str ''Next'', description := Str ''One more''\<rparr>))]))))) = complete"
proof -
  let ?before = "[(CompleteTodo, serving, anonymous (Num 1) emptyProps)]"
  let ?after = "[(UpdateTodo, serving, anonymous (Num 1) (emptyProps\<lparr>title := Str ''Again''\<rparr>)),
          (CreateTodo, serving, anonymous NaN
             (emptyProps\<lparr>title := Str ''Next'', description := Str ''One more''\<rparr>))]"
  let ?r = "test_row\<lparr>status_col := complete, completed_at := Some 200, edited_at := Some 201\<rparr>"
  have c: "consistent (database test_world)"
    by (simp add: consistent_def sample_defs)
  have 1: "todos (database (run test_world ?before)) = [?r]"
    by (simp add: sample_defs entity_defs handler_defs)
  have 2: "todos (database (run test_world (?before @ ?after))) =
      [?r\<lparr>title_col := ''Again'', edited_at := Some 200\<rparr>,
       \<lparr>id_col = 2, title_col = ''Next'', description_col = ''One more'', status_col = incomplete,
        due_at = None, created_at = 200, completed_at = None, edited_at = None\<rparr>]"
    by (simp add: sample_defs entity_defs handler_defs)
  have m: "?r \<in> set (todos (database (run test_world ?before)))"
    by (simp only: 1 list.set insertI1)
  have m': "hd (todos (database (run test_world (?before @ ?after))))
      \<in> set (todos (database (run test_world (?before @ ?after))))"
    by (simp only: 2 list.sel list.set insertI1)
  have s: "status_col ?r = complete" by simp
  have i: "id_col (hd (todos (database (run test_world (?before @ ?after))))) = id_col ?r"
    by (simp only: 2 list.sel) simp
  have t: "title_col (hd (todos (database (run test_world (?before @ ?after))))) = ''Again''"
    by (simp only: 2 list.sel) simp
  from status_never_reopens [OF c m s m' i] c m m' t show ?thesis
    by blast
qed

end
